theory Spec2Isabelle
  imports Main "HOL-Library.Multiset" "HOL-Library.Code_Target_Nat"
begin

section \<open>JavaScript values, errors and promises\<close>

text \<open>
  The bot is JavaScript on Node. An exception is a value of type \<open>error\<close>; a promise
  either resolves with a value, rejects with an error, or never settles
  (\<open>Pending\<close>: an awaited promise that stays pending blocks everything behind it).
  A string is the list of its code units, for the code units below 256; \<open>===\<close> on
  strings is equality of these lists.
\<close>

datatype error = TypeError string | RangeError string | Failure string

datatype 'a outcome = Resolved 'a | Rejected error | Pending

text \<open>
  The values a command's \<open>description\<close> can hold. Array elements are strings, as the
  command descriptors declare them. \<open>JS_Object has_length\<close> is an object that is not an
  array; the flag says whether it carries a \<open>length\<close> property. Such an object is taken
  to have no \<open>map\<close> method.
\<close>

datatype js_value =
    JS_Undefined
  | JS_Null
  | JS_Boolean bool
  | JS_Number int
  | JS_String string
  | JS_Array "string list"
  | JS_Object bool

fun typeof :: "js_value \<Rightarrow> string" where
  "typeof JS_Undefined = ''undefined''"
| "typeof JS_Null = ''object''"
| "typeof (JS_Boolean b) = ''boolean''"
| "typeof (JS_Number n) = ''number''"
| "typeof (JS_String s) = ''string''"
| "typeof (JS_Array ds) = ''object''"
| "typeof (JS_Object has_length) = ''object''"

text \<open>\<^verbatim>\<open>typeof desc.length !== 'undefined'\<close>: reading a property of \<open>null\<close> or
  \<open>undefined\<close> throws.\<close>

fun length_defined :: "js_value \<Rightarrow> error + bool" where
  "length_defined JS_Undefined = Inl (TypeError ''Cannot read property length of undefined'')"
| "length_defined JS_Null = Inl (TypeError ''Cannot read property length of null'')"
| "length_defined (JS_Boolean b) = Inr False"
| "length_defined (JS_Number n) = Inr False"
| "length_defined (JS_String s) = Inr True"
| "length_defined (JS_Array ds) = Inr True"
| "length_defined (JS_Object has_length) = Inr has_length"

text \<open>\<^verbatim>\<open>desc.map(f)\<close>: only an array has the method.\<close>

fun map_method :: "js_value \<Rightarrow> (string \<Rightarrow> string) \<Rightarrow> error + string list" where
  "map_method (JS_Array ds) f = Inr (map f ds)"
| "map_method v f = Inl (TypeError ''desc.map is not a function'')"

definition LF :: char where
  "LF = CHR 0x0A"

text \<open>\<^verbatim>\<open>Array.prototype.join(sep)\<close>; \<^verbatim>\<open>toString()\<close> of an array is \<^verbatim>\<open>join(',')\<close>.\<close>

fun join :: "string \<Rightarrow> string list \<Rightarrow> string" where
  "join sep [] = []"
| "join sep [x] = x"
| "join sep (x # y # ys) = x @ sep @ join sep (y # ys)"

definition toString :: "string list \<Rightarrow> string" where
  "toString xs = join '','' xs"

text \<open>\<^verbatim>\<open>.replace(/,/g, '')\<close>: every comma of the string is removed.\<close>

definition replace_commas :: "string \<Rightarrow> string" where
  "replace_commas s = filter (\<lambda>c. c \<noteq> CHR '','') s"

text \<open>\<^verbatim>\<open>Array.prototype.find(fn)\<close>: the first element on which the callback's result is
  truthy, \<open>undefined\<close> (\<open>None\<close>) when there is none.\<close>

fun find_array :: "('a \<Rightarrow> bool) \<Rightarrow> 'a list \<Rightarrow> 'a option" where
  "find_array fn [] = None"
| "find_array fn (x # xs) = (if fn x then Some x else find_array fn xs)"

text \<open>Truthiness of what \<open>find\<close> on a string array returns: \<open>undefined\<close> and the empty
  string are falsy, every other string is truthy.\<close>

fun truthy :: "string option \<Rightarrow> bool" where
  "truthy None = False"
| "truthy (Some s) = (s \<noteq> [])"

section \<open>Data model\<close>

text \<open>A command descriptor (the \<open>script\<close> field, the handler, is modelled apart as
  \<open>script\<close> below).\<close>

record command =
  "alias" :: "string list"
  name :: string
  description :: js_value
  group :: string

text \<open>The \<open>ClientUser\<close> of a client that is logged in: its tag and what
  \<open>displayAvatarURL()\<close> returns.\<close>

record client_user =
  tag :: string
  displayAvatarURL :: string

text \<open>The connection the database driver resolves with: its \<open>readyState\<close> (1 is
  connected), and whether it will emit \<open>open\<close> to a listener that waits for it.\<close>

record connection =
  readyState :: nat
  opens :: bool

text \<open>
  A \<open>MessageEmbed\<close>, the display unit of the help command. It is kept as the \<open>data\<close>
  object its constructor was given (a key that is absent is \<open>None\<close>; the footer is its
  \<open>text\<close> and its \<open>iconUrl\<close>) and the fields added to it since, each a name, a value
  and the \<open>inline\<close> flag. What the transport library derives from the data when it
  renders the embed is not part of the model.
\<close>

record embed_data =
  data_title :: "string option"
  data_description :: "string option"
  data_color :: "string option"
  data_thumbnail :: "string option"
  data_timestamp :: "nat option"
  data_footer :: "(string \<times> string) option"

type_synonym embed_field = "string \<times> string \<times> bool"

record embed =
  constructed_with :: embed_data
  embed_fields :: "embed_field list"

text \<open>
  What is handed to a listener of the event emitter, and a listener: it returns
  (\<open>None\<close>) or throws an error.
\<close>

datatype emit_arg = Message_arg string | Error_arg error

type_synonym listener = "emit_arg \<Rightarrow> error option"

text \<open>
  The fields of \<open>ClientDiscordBot\<close> that the modelled methods read or write.
  \<open>commands\<close> is the registry in registration order. \<open>emit\<close> says whether \<open>this.emit\<close>
  is defined, and \<open>listeners\<close> gives the listeners registered on the client for an event
  name, in the order they were registered; the constructor registers none. The modules
  registry is kept beside the record, since its hooks are functions on the bot.
\<close>

record bot =
  dev :: string
  prefix :: string
  dbname :: "string option"
  commands :: "command list"
  db :: "connection option"
  user :: "client_user option"
  emit :: bool
  listeners :: "string \<Rightarrow> listener list"

text \<open>
  What a run does to the outside, in order: calls of the database driver, of the
  event emitter, of module hooks, of the transport, and of the message channel.
\<close>

datatype event =
    Mongoose_connect string
  | Await_open
  | Emit string emit_arg
  | Init_called string
  | Init_done string
  | Init_failed string error
  | Start_called string
  | Start_done string
  | Start_failed string error
  | Transport_login string
  | Embed_built embed
  | Sent string embed
  | Unhandled_rejection error

type_synonym 'a action = "bot \<Rightarrow> 'a outcome \<times> bot \<times> event list"

section \<open>The help command\<close>

definition placeholder :: string where
  "placeholder = ''La description de cette commande ne peut pas '' @ [CHR 0xEA]
     @ ''tre affich'' @ [CHR 0xE9] @ ''e''"

definition handleDescription :: "js_value \<Rightarrow> error + string" where
  "handleDescription desc =
     (case (if typeof desc = ''object'' then length_defined desc else Inr False) of
        Inl e \<Rightarrow> Inl e
      | Inr True \<Rightarrow>
          (case map_method desc (\<lambda>d. d @ [LF]) of
             Inl e \<Rightarrow> Inl e
           | Inr ds \<Rightarrow> Inr (replace_commas (toString ds)))
      | Inr False \<Rightarrow>
          (if typeof desc \<noteq> ''string'' then Inr placeholder
           else (case desc of JS_String s \<Rightarrow> Inr s | _ \<Rightarrow> Inr placeholder)))"

text \<open>The description format the specification words: the elements joined with line
  breaks.\<close>

definition spec_joined_with_line_breaks :: "string list \<Rightarrow> string" where
  "spec_joined_with_line_breaks ds = join [LF] ds"

text \<open>
  Modelled from the spec: \<open>Commands.js\<close> is not among the sources. The registry is an
  ordered collection of commands, insertion order being load order, and its \<open>find\<close> is
  the collection's: the first entry on which the callback's result is truthy.
\<close>

definition find_collection :: "('a \<Rightarrow> bool) \<Rightarrow> 'a list \<Rightarrow> 'a option" where
  "find_collection fn coll = find_array fn coll"

text \<open>The lookup of the help script:
  \<^verbatim>\<open>Bot.commands.find(command => command.alias.find(alias => cmd === alias))\<close>.
  The inner \<open>find\<close> returns the matching alias itself, and the outer one tests that
  string for truthiness.\<close>

definition find_command :: "command list \<Rightarrow> string \<Rightarrow> command option" where
  "find_command cs cmd =
     find_collection (\<lambda>c. truthy (find_array (\<lambda>a. cmd = a) (alias c))) cs"

text \<open>\<^verbatim>\<open>command.length && command.length === 0\<close>, on the \<open>length\<close> property of the
  command found (\<open>None\<close>: it has none).\<close>

definition length_guard :: "int option \<Rightarrow> bool" where
  "length_guard l = (case l of None \<Rightarrow> False | Some n \<Rightarrow> n \<noteq> 0 \<and> n = 0)"

text \<open>
  Modelled from the spec: \<open>Commands.js\<close>, which holds \<open>regroup\<close>, is not among the
  sources. \<open>regroup()\<close> produces a mapping from group name to ordered sequence of
  commands, built by a single pass over the registry in insertion order; a group key that
  is absent starts a new group on first occurrence. The mapping is an object, kept here
  as an association list in the order the keys were created.
\<close>

fun add_to_group :: "command \<Rightarrow> (string \<times> command list) list \<Rightarrow> (string \<times> command list) list" where
  "add_to_group c [] = [(group c, [c])]"
| "add_to_group c ((g, cs) # groups) =
     (if g = group c then (g, cs @ [c]) # groups else (g, cs) # add_to_group c groups)"

fun regroup_from :: "(string \<times> command list) list \<Rightarrow> command list \<Rightarrow> (string \<times> command list) list" where
  "regroup_from groups [] = groups"
| "regroup_from groups (c # cs) = regroup_from (add_to_group c groups) cs"

definition regroup :: "command list \<Rightarrow> (string \<times> command list) list" where
  "regroup cs = regroup_from [] cs"

text \<open>
  \<^verbatim>\<open>Object.keys(groups)\<close>: the keys that are array indices (canonical decimal numerals
  below \<open>2^32 - 1\<close>) come first, in ascending numeric order, then the other keys in the
  order they were created.
\<close>

definition digit :: "char \<Rightarrow> bool" where
  "digit c = (48 \<le> (of_char c :: nat) \<and> (of_char c :: nat) \<le> 57)"

definition numeral_value :: "string \<Rightarrow> nat" where
  "numeral_value s = foldl (\<lambda>n c. 10 * n + (of_char c - 48)) 0 s"

definition array_index :: "string \<Rightarrow> bool" where
  "array_index s =
     (s \<noteq> [] \<and> list_all digit s \<and> (s = ''0'' \<or> hd s \<noteq> CHR ''0'')
      \<and> numeral_value s < 4294967295)"

definition Object_keys :: "(string \<times> 'v) list \<Rightarrow> string list" where
  "Object_keys obj =
     sort_key numeral_value (filter array_index (map fst obj))
     @ filter (\<lambda>k. \<not> array_index k) (map fst obj)"

text \<open>
  \<open>ClientDiscordBot.MessageEmbed(data)\<close>, for the \<open>data\<close> the help script passes: an
  object with a \<open>title\<close> and a \<open>description\<close>. When the client has its user, the defaults
  are laid under the data (\<^verbatim>\<open>Object.assign(defaults, data)\<close>); \<open>now\<close> is the clock's
  \<^verbatim>\<open>new Date()\<close>.
\<close>

definition MessageEmbed :: "nat \<Rightarrow> bot \<Rightarrow> string \<times> string \<Rightarrow> embed" where
  "MessageEmbed now b data =
     (case user b of
        Some u \<Rightarrow>
          \<lparr>constructed_with =
             \<lparr>data_title = Some (fst data), data_description = Some (snd data),
              data_color = Some ''RANDOM'', data_thumbnail = Some (displayAvatarURL u),
              data_timestamp = Some now,
              data_footer = Some (tag u @ '' | '' @ dev b, displayAvatarURL u)\<rparr>,
           embed_fields = []\<rparr>
      | None \<Rightarrow>
          \<lparr>constructed_with =
             \<lparr>data_title = Some (fst data), data_description = Some (snd data),
              data_color = None, data_thumbnail = None, data_timestamp = None,
              data_footer = None\<rparr>,
           embed_fields = []\<rparr>)"

text \<open>
  \<open>embed.addFields(fields)\<close> of the transport library (discord.js 12): every field is
  normalised first, in order, and a field whose name or whose value is the empty string
  throws a \<open>RangeError\<close>; only when all are normalised are they added, with \<open>inline\<close>
  false.
\<close>

definition normalizeField :: "string \<times> string \<Rightarrow> error + embed_field" where
  "normalizeField f =
     (if fst f = [] then Inl (RangeError ''EMBED_FIELD_NAME'')
      else if snd f = [] then Inl (RangeError ''EMBED_FIELD_VALUE'')
      else Inr (fst f, snd f, False))"

fun normalizeFields :: "(string \<times> string) list \<Rightarrow> error + embed_field list" where
  "normalizeFields [] = Inr []"
| "normalizeFields (f # fs) =
     (case normalizeField f of
        Inl e \<Rightarrow> Inl e
      | Inr x \<Rightarrow>
          (case normalizeFields fs of
             Inl e \<Rightarrow> Inl e
           | Inr xs \<Rightarrow> Inr (x # xs)))"

definition addFields :: "embed \<Rightarrow> (string \<times> string) list \<Rightarrow> error + embed" where
  "addFields e fs =
     (case normalizeFields fs of
        Inl err \<Rightarrow> Inl err
      | Inr xs \<Rightarrow> Inr (e\<lparr>embed_fields := embed_fields e @ xs\<rparr>))"

text \<open>
  \<open>emit(eventName, arg)\<close> of the client, which is a Node \<open>EventEmitter\<close>: the listeners
  of the event are called in order, and an error a listener throws leaves \<open>emit\<close> at
  once. With no listener \<open>emit\<close> returns \<open>false\<close>, except for the event \<open>error\<close>: then it
  throws the error it was given. Otherwise it returns \<open>true\<close>.
\<close>

fun run_listeners :: "listener list \<Rightarrow> emit_arg \<Rightarrow> error option" where
  "run_listeners [] a = None"
| "run_listeners (l # ls) a =
     (case l a of Some e \<Rightarrow> Some e | None \<Rightarrow> run_listeners ls a)"

definition emit_event :: "bot \<Rightarrow> string \<Rightarrow> emit_arg \<Rightarrow> (error + bool) \<times> event list" where
  "emit_event b ev a =
     (if listeners b ev = [] then
        (if ev = ''error'' then
           (case a of
              Error_arg err \<Rightarrow> (Inl err, [Emit ev a])
            | Message_arg m \<Rightarrow> (Inl (Failure ''ERR_UNHANDLED_ERROR''), [Emit ev a]))
         else (Inr False, [Emit ev a]))
      else
        (case run_listeners (listeners b ev) a of
           Some e \<Rightarrow> (Inl e, [Emit ev a])
         | None \<Rightarrow> (Inr True, [Emit ev a])))"

text \<open>\<open>ClientDiscordBot.handleError(error)\<close>: throws the error when there is no emitter,
  and returns what \<^verbatim>\<open>this.emit('error', error)\<close> returns otherwise.\<close>

definition handleError :: "bot \<Rightarrow> error \<Rightarrow> (error + bool) \<times> event list" where
  "handleError b err =
     (if \<not> emit b then (Inl err, [])
      else emit_event b ''error'' (Error_arg err))"

text \<open>The functions \<open>title\<close> and \<open>description\<close> of \<open>./responses\<close>, which is not among the
  sources: parameters of the script.\<close>

record responses =
  title_response :: "string \<Rightarrow> string"
  description_response :: "string \<Rightarrow> string"

text \<open>The inbound message: the text its member prints as, and what the promise of
  \<^verbatim>\<open>message.channel.send(content, embed)\<close> does.\<close>

record message =
  member_str :: string
  channel_send :: "string \<Rightarrow> embed \<Rightarrow> unit outcome"

text \<open>The value of a help field: the formatted description, a line break, and the
  alias list.\<close>

definition field_value :: "string \<Rightarrow> string list \<Rightarrow> string" where
  "field_value d al = d @ [LF] @ ''Commandes: [``'' @ toString al @ ''``]''"

text \<open>The value of a help field is never the empty string; its name is the command's
  name. \<^verbatim>\<open>group.map(command => ({name, value}))\<close>: the first description that cannot be
  formatted throws out of the whole map.\<close>

fun help_fields :: "command list \<Rightarrow> error + (string \<times> string) list" where
  "help_fields [] = Inr []"
| "help_fields (c # cs) =
     (case handleDescription (description c) of
        Inl e \<Rightarrow> Inl e
      | Inr d \<Rightarrow>
          (case help_fields cs of
             Inl e \<Rightarrow> Inl e
           | Inr fs \<Rightarrow> Inr ((name c, field_value d (alias c)) # fs)))"

text \<open>\<^verbatim>\<open>message.channel.send(member, embed).catch(error => Bot.handleError(error))\<close>:
  the call is made at once and not awaited; the callback runs later, when the promise
  has rejected. An error thrown by the callback itself is an unhandled rejection.\<close>

definition send_catch :: "bot \<Rightarrow> message \<Rightarrow> embed \<Rightarrow> event list" where
  "send_catch b msg e =
     (case channel_send msg (member_str msg) e of
        Resolved u \<Rightarrow> []
      | Pending \<Rightarrow> []
      | Rejected err \<Rightarrow>
          (case handleError b err of
             (Inl err', t) \<Rightarrow> t @ [Unhandled_rejection err']
           | (Inr u, t) \<Rightarrow> t))"

text \<open>
  The body of \<^verbatim>\<open>Object.keys(groups).map(groupName => ...)\<close>, one group after the other.
  The result is the error that stopped the loop (if any), the events of the loop itself,
  and the events of the \<open>catch\<close> callbacks, which run after the script's own code.
\<close>

fun send_groups :: "responses \<Rightarrow> nat \<Rightarrow> bot \<Rightarrow> message \<Rightarrow> (string \<times> command list) list
    \<Rightarrow> string list \<Rightarrow> error option \<times> event list \<times> event list" where
  "send_groups resp now b msg groups [] = (None, [], [])"
| "send_groups resp now b msg groups (groupName # ks) =
     (case user b of
        None \<Rightarrow> (Some (TypeError ''Cannot read property tag of null''), [], [])
      | Some u \<Rightarrow>
          (let e = MessageEmbed now b
                 (title_response resp (tag u @ '', Section: '' @ groupName),
                  description_response resp (prefix b))
           in case map_of groups groupName of
                None \<Rightarrow> (Some (TypeError ''Cannot read property map of undefined''), [Embed_built e], [])
              | Some cs \<Rightarrow>
                  (case help_fields cs of
                     Inl err \<Rightarrow> (Some err, [Embed_built e], [])
                   | Inr fs \<Rightarrow>
                       (case addFields e fs of
                          Inl err \<Rightarrow> (Some err, [Embed_built e], [])
                        | Inr e' \<Rightarrow>
                            (let (r, t, later) = send_groups resp now b msg groups ks
                             in (r, Embed_built e # Sent (member_str msg) e' # t,
                                 send_catch b msg e' @ later))))))"

text \<open>
  The handler of the help command, \<open>script({ Bot, message, args })\<close>. It is an async
  function with no \<open>await\<close>: it resolves when its body has run and rejects when the body
  throws. The trace is what the body did, then what the \<open>catch\<close> callbacks did.
\<close>

definition script :: "responses \<Rightarrow> nat \<Rightarrow> bot \<Rightarrow> message \<Rightarrow> string list \<Rightarrow> unit outcome \<times> event list" where
  "script resp now b msg args =
     (if length args = 0 then
        (let groups = regroup (commands b) in
         case send_groups resp now b msg groups (Object_keys groups) of
           (None, t, later) \<Rightarrow> (Resolved (), t @ later)
         | (Some err, t, later) \<Rightarrow> (Rejected err, t @ later))
      else
        (let cmd = hd args in
         case user b of
           None \<Rightarrow> (Rejected (TypeError ''Cannot read property tag of null''), [])
         | Some u \<Rightarrow>
             (let e = MessageEmbed now b
                    (title_response resp (tag u), description_response resp (prefix b))
              in case find_command (commands b) cmd of
                   None \<Rightarrow> (Resolved (), [Embed_built e])
                 | Some c \<Rightarrow>
                     (if length_guard None then (Resolved (), [Embed_built e])
                      else case handleDescription (description c) of
                             Inl err \<Rightarrow> (Rejected err, [Embed_built e])
                           | Inr d \<Rightarrow>
                               (case addFields e [(name c, field_value d (alias c))] of
                                  Inl err \<Rightarrow> (Rejected err, [Embed_built e])
                                | Inr e' \<Rightarrow>
                                    (Resolved (),
                                     [Embed_built e, Sent (member_str msg) e']
                                     @ send_catch b msg e'))))))"

text \<open>
  Modelled from the spec: the dispatch layer that calls a command's handler is not
  among the sources. Errors from a handler are caught by the dispatch layer and routed
  to the bot-wide error event, that is, handed to \<open>handleError\<close>. The argument is what
  the handler's run gave.
\<close>

definition dispatch :: "bot \<Rightarrow> unit outcome \<times> event list \<Rightarrow> unit outcome \<times> event list" where
  "dispatch b run =
     (case run of
        (Rejected err, t) \<Rightarrow>
          (case handleError b err of
             (Inl err', t') \<Rightarrow> (Rejected err', t @ t')
           | (Inr u, t') \<Rightarrow> (Resolved (), t @ t'))
      | (r, t) \<Rightarrow> (r, t))"

section \<open>The login lifecycle\<close>

text \<open>
  The external collaborators of \<open>login\<close>: what the promise of
  \<^verbatim>\<open>mongoose.connect(url, dbOptions)\<close> does (it resolves with the connection), and what
  the promise of the transport client's own \<open>login(token)\<close> does.
\<close>

record externals =
  mongoose_connect :: "string \<Rightarrow> connection outcome"
  super_login :: "string \<Rightarrow> string outcome"

text \<open>Sequencing of async steps: \<open>await p\<close> and then \<open>k\<close>; a step that rejects or stays
  pending ends the function there. \<^verbatim>\<open>p.catch(h)\<close> runs \<open>h\<close> on a rejection.\<close>

definition await :: "'a action \<Rightarrow> ('a \<Rightarrow> 'b action) \<Rightarrow> 'b action" where
  "await p k b =
     (case p b of
        (Resolved x, b1, t1) \<Rightarrow> (case k x b1 of (r, b2, t2) \<Rightarrow> (r, b2, t1 @ t2))
      | (Rejected e, b1, t1) \<Rightarrow> (Rejected e, b1, t1)
      | (Pending, b1, t1) \<Rightarrow> (Pending, b1, t1))"

definition catch :: "'a action \<Rightarrow> (error \<Rightarrow> 'a action) \<Rightarrow> 'a action" where
  "catch p h b =
     (case p b of
        (Rejected e, b1, t1) \<Rightarrow> (case h e b1 of (r, b2, t2) \<Rightarrow> (r, b2, t1 @ t2))
      | (r, b1, t1) \<Rightarrow> (r, b1, t1))"

definition throw :: "error \<Rightarrow> 'a action" where
  "throw e b = (Rejected e, b, [])"

text \<open>\<^verbatim>\<open>!this.dbname\<close> is false exactly for a non-empty name (\<open>None\<close> is \<open>null\<close>, the
  constructor's default).\<close>

fun configured :: "string option \<Rightarrow> bool" where
  "configured None = False"
| "configured (Some n) = (n \<noteq> [])"

text \<open>
  \<open>ClientDiscordBot.connect()\<close>. Without a database name it returns at once. Otherwise it
  awaits the driver, stores the connection, waits for its \<open>open\<close> event unless it is
  ready (\<open>opens\<close> says whether that event ever comes), emits \<open>debug\<close> and returns the
  connection; an error thrown out of \<open>emit\<close> rejects it.
\<close>

definition connect :: "externals \<Rightarrow> connection option action" where
  "connect ext b =
     (case dbname b of
        None \<Rightarrow> (Resolved None, b, [])
      | Some n \<Rightarrow>
          (if \<not> configured (Some n) then (Resolved None, b, [])
           else
             (let url = ''mongodb://localhost:27017/'' @ n in
              case mongoose_connect ext url of
                Rejected e \<Rightarrow> (Rejected e, b, [Mongoose_connect url])
              | Pending \<Rightarrow> (Pending, b, [Mongoose_connect url])
              | Resolved mongodb \<Rightarrow>
                  (let b1 = b\<lparr>db := Some mongodb\<rparr> in
                   if readyState mongodb \<noteq> 1 \<and> \<not> opens mongodb
                   then (Pending, b1, [Mongoose_connect url, Await_open])
                   else
                     (let b2 = (if readyState mongodb \<noteq> 1
                                then b\<lparr>db := Some (mongodb\<lparr>readyState := 1\<rparr>)\<rparr> else b1);
                          t = (if readyState mongodb \<noteq> 1 then [Await_open] else [])
                      in if \<not> emit b
                         then (Rejected (TypeError ''this.emit is not a function''), b2,
                                 [Mongoose_connect url] @ t)
                         else
                           (case emit_event b ''debug''
                                   (Message_arg ''[DiscordBot] Mongodb connected'') of
                              (Inl e, t') \<Rightarrow> (Rejected e, b2, [Mongoose_connect url] @ t @ t')
                            | (Inr r, t') \<Rightarrow>
                                (Resolved (db b2), b2, [Mongoose_connect url] @ t @ t')))))))"

text \<open>\<^verbatim>\<open>super.login(token)\<close>: the transport client's login; \<open>login\<close> returns its promise.\<close>

definition transport_login :: "externals \<Rightarrow> string \<Rightarrow> string action" where
  "transport_login ext token b = (super_login ext token, b, [Transport_login token])"

text \<open>
  Modelled from the spec: \<open>Module.js\<close> and \<open>Modules.js\<close> are not among the sources. A
  module is a named feature unit with \<open>init\<close> and \<open>start\<close> lifecycle hooks; a hook is an
  async function that may change the bot.
\<close>

record module =
  name_module :: string
  init :: "bot \<Rightarrow> unit outcome \<times> bot"
  start :: "bot \<Rightarrow> unit outcome \<times> bot"

text \<open>
  Modelled from the spec: \<open>Modules.init()\<close> invokes each module's \<open>init\<close> hook strictly in
  registration order, awaiting full completion of one before starting the next. Any hook
  failing aborts the whole sequence and propagates the error to the caller.
\<close>

fun Modules_init :: "module list \<Rightarrow> unit action" where
  "Modules_init [] b = (Resolved (), b, [])"
| "Modules_init (m # ms) b =
     (case init m b of
        (Resolved u, b1) \<Rightarrow>
          (case Modules_init ms b1 of
             (r, b2, t) \<Rightarrow> (r, b2, Init_called (name_module m) # Init_done (name_module m) # t))
      | (Rejected e, b1) \<Rightarrow>
          (Rejected e, b1, [Init_called (name_module m), Init_failed (name_module m) e])
      | (Pending, b1) \<Rightarrow> (Pending, b1, [Init_called (name_module m)]))"

text \<open>
  Modelled from the spec: \<open>Modules.start()\<close> invokes each module's \<open>start\<close> hook strictly
  in registration order, with the same failure propagation rule.
\<close>

fun Modules_start :: "module list \<Rightarrow> unit action" where
  "Modules_start [] b = (Resolved (), b, [])"
| "Modules_start (m # ms) b =
     (case start m b of
        (Resolved u, b1) \<Rightarrow>
          (case Modules_start ms b1 of
             (r, b2, t) \<Rightarrow> (r, b2, Start_called (name_module m) # Start_done (name_module m) # t))
      | (Rejected e, b1) \<Rightarrow>
          (Rejected e, b1, [Start_called (name_module m), Start_failed (name_module m) e])
      | (Pending, b1) \<Rightarrow> (Pending, b1, [Start_called (name_module m)]))"

text \<open>
  \<open>ClientDiscordBot.login(token)\<close>:
  \<^verbatim>\<open>await this.connect().catch(error => { throw error })\<close>, then
  \<^verbatim>\<open>await this.modules.init()\<close>, then \<^verbatim>\<open>await this.modules.start()\<close>, then
  \<^verbatim>\<open>return super.login(token)\<close>. \<open>ms\<close> is the modules registry \<open>this.modules\<close>.
\<close>

definition login :: "externals \<Rightarrow> module list \<Rightarrow> string \<Rightarrow> string action" where
  "login ext ms token =
     await (catch (connect ext) (\<lambda>error. throw error)) (\<lambda>_.
     await (Modules_init ms) (\<lambda>_.
     await (Modules_start ms) (\<lambda>_.
     transport_login ext token)))"

text \<open>Tests on events, and the names of the modules whose \<open>init\<close> has completed, in
  the order of a trace.\<close>

fun is_connect_attempt :: "event \<Rightarrow> bool" where
  "is_connect_attempt (Mongoose_connect url) = True"
| "is_connect_attempt ev = False"

fun is_init_called :: "event \<Rightarrow> bool" where
  "is_init_called (Init_called n) = True"
| "is_init_called ev = False"

fun is_init_failed :: "event \<Rightarrow> bool" where
  "is_init_failed (Init_failed n e) = True"
| "is_init_failed ev = False"

fun is_start_called :: "event \<Rightarrow> bool" where
  "is_start_called (Start_called n) = True"
| "is_start_called ev = False"

fun init_done_name :: "event \<Rightarrow> string option" where
  "init_done_name (Init_done n) = Some n"
| "init_done_name ev = None"

definition inits_done :: "event list \<Rightarrow> string list" where
  "inits_done t = List.map_filter init_done_name t"

fun is_embed_built :: "event \<Rightarrow> bool" where
  "is_embed_built (Embed_built e) = True"
| "is_embed_built ev = False"

fun is_sent :: "event \<Rightarrow> bool" where
  "is_sent (Sent c e) = True"
| "is_sent ev = False"

fun is_unhandled :: "event \<Rightarrow> bool" where
  "is_unhandled (Unhandled_rejection e) = True"
| "is_unhandled ev = False"

section \<open>Fixtures\<close>

text \<open>The registry of the specification's scenario, and a command that carries the
  empty alias.\<close>

definition cmd_help :: command where
  "cmd_help = \<lparr>alias = [''h'', ''help''], name = ''Help'',
     description = JS_Array [''List of commands'', ''Help on one command''], group = ''help''\<rparr>"

definition cmd_ping :: command where
  "cmd_ping = \<lparr>alias = [''p''], name = ''Ping'', description = JS_String ''Pong'',
     group = ''util''\<rparr>"

definition cmd_blank :: command where
  "cmd_blank = \<lparr>alias = [[], ''b''], name = ''Blank'', description = JS_String ''Blank'',
     group = ''util''\<rparr>"

text \<open>A bot with the constructor's defaults that is logged in, as constructed (no
  listener) and with a listener for \<open>error\<close>; a command whose name is the empty string;
  a message whose channel accepts or refuses what is sent, the responses, the external
  collaborators, and modules.\<close>

definition user_example :: client_user where
  "user_example = \<lparr>tag = ''Bot#0001'', displayAvatarURL = ''avatar.png''\<rparr>"

definition bot_example :: bot where
  "bot_example = \<lparr>dev = ''Anonymous'', prefix = ''&'', dbname = None,
     commands = [cmd_help, cmd_ping], db = None, user = Some user_example, emit = True,
     listeners = (\<lambda>ev. [])\<rparr>"

definition bot_listening :: bot where
  "bot_listening =
     bot_example\<lparr>listeners := (\<lambda>ev. if ev = ''error'' then [\<lambda>a. None] else [])\<rparr>"

definition cmd_nameless :: command where
  "cmd_nameless = \<lparr>alias = [''n''], name = [], description = JS_String ''No name'',
     group = ''util''\<rparr>"

definition responses_example :: responses where
  "responses_example = \<lparr>title_response = (\<lambda>s. s), description_response = (\<lambda>p. p)\<rparr>"

definition message_delivered :: message where
  "message_delivered = \<lparr>member_str = ''<@1>'', channel_send = (\<lambda>c e. Resolved ())\<rparr>"

definition message_refused :: message where
  "message_refused = \<lparr>member_str = ''<@1>'',
     channel_send = (\<lambda>c e. Rejected (Failure ''Missing Permissions''))\<rparr>"

definition externals_example :: externals where
  "externals_example = \<lparr>mongoose_connect = (\<lambda>url. Resolved \<lparr>readyState = 1, opens = True\<rparr>),
     super_login = (\<lambda>token. Resolved token)\<rparr>"

definition externals_down :: externals where
  "externals_down = \<lparr>mongoose_connect = (\<lambda>url. Rejected (Failure ''ECONNREFUSED'')),
     super_login = (\<lambda>token. Resolved token)\<rparr>"

definition module_core :: module where
  "module_core = \<lparr>name_module = ''core'',
     init = (\<lambda>b. (Resolved (), b\<lparr>commands := commands b @ [cmd_blank]\<rparr>)),
     start = (\<lambda>b. (Resolved (), b))\<rparr>"

definition module_broken :: module where
  "module_broken = \<lparr>name_module = ''broken'',
     init = (\<lambda>b. (Rejected (Failure ''init failed''), b)),
     start = (\<lambda>b. (Resolved (), b))\<rparr>"

definition module_extra :: module where
  "module_extra = \<lparr>name_module = ''extra'',
     init = (\<lambda>b. (Resolved (), b)),
     start = (\<lambda>b. (Resolved (), b))\<rparr>"

section \<open>Formatting a description\<close>

lemma replace_commas_join: "replace_commas (join '','' xs) = concat (map replace_commas xs)"
  by (induction "'',''" xs rule: join.induct) (auto simp: replace_commas_def)

lemma replace_commas_id: "CHR '','' \<notin> set s \<Longrightarrow> replace_commas s = s"
  by (auto simp: replace_commas_def filter_id_conv)

lemma handleDescription_Array:
  "handleDescription (JS_Array ds) = Inr (concat (map (\<lambda>d. replace_commas d @ [LF]) ds))"
  by (simp add: handleDescription_def toString_def replace_commas_join o_def)
     (simp add: replace_commas_def LF_def)

lemma handleDescription_Array_plain:
  "\<forall>d\<in>set ds. CHR '','' \<notin> set d \<Longrightarrow>
     handleDescription (JS_Array ds) = Inr (concat (map (\<lambda>d. d @ [LF]) ds))"
  unfolding handleDescription_Array by (induction ds) (auto simp: replace_commas_id)

text \<open>
  C7, as amended. \<open>handleDescription\<close> returns a string description unchanged. For an
  ordered sequence of strings none of which holds a comma it returns every element
  followed by a line break, one after the other, so the result ends with a line break.
  For \<open>undefined\<close>, a boolean, a number, and an object without a \<open>length\<close> property it
  returns the fixed placeholder.
\<close>

theorem handleDescription_format:
  "handleDescription (JS_String s) = Inr s
   \<and> ((\<forall>d\<in>set ds. CHR '','' \<notin> set d) \<longrightarrow>
        handleDescription (JS_Array ds) = Inr (concat (map (\<lambda>d. d @ [LF]) ds)))
   \<and> handleDescription JS_Undefined = Inr placeholder
   \<and> handleDescription (JS_Boolean b) = Inr placeholder
   \<and> handleDescription (JS_Number n) = Inr placeholder
   \<and> handleDescription (JS_Object False) = Inr placeholder"
  using handleDescription_Array_plain [of ds] by (simp add: handleDescription_def)

theorem handleDescription_format_witness:
  "handleDescription (JS_Array [''Line one'', ''Line two''])
     = Inr (''Line one'' @ [LF] @ ''Line two'' @ [LF])
   \<and> handleDescription (JS_String ''a, b'') = Inr ''a, b''
   \<and> handleDescription (JS_Number 7) = Inr placeholder"
  using handleDescription_format [of "''a, b''" "[''Line one'', ''Line two'']" True 7]
  by simp

text \<open>
  C7 as the specification states it fails: the result for the sequence \<open>a\<close>, \<open>b\<close> is not
  the two elements joined with a line break, since a line break follows the last
  element too.
\<close>

theorem handleDescription_not_joined:
  "handleDescription (JS_Array [''a'', ''b'']) = Inr (''a'' @ [LF] @ ''b'' @ [LF])
   \<and> spec_joined_with_line_breaks [''a'', ''b''] = ''a'' @ [LF] @ ''b''
   \<and> handleDescription (JS_Array [''a'', ''b''])
       \<noteq> Inr (spec_joined_with_line_breaks [''a'', ''b''])"
  by (simp add: handleDescription_Array spec_joined_with_line_breaks_def replace_commas_def)

section \<open>Looking a command up by alias\<close>

lemma find_array_None: "find_array P xs = None \<longleftrightarrow> (\<forall>x\<in>set xs. \<not> P x)"
  by (induction xs) auto

text \<open>\<open>find\<close> returns the first element that satisfies the callback: the elements before
  it do not.\<close>

lemma find_array_first:
  "xs = ys @ x # zs \<Longrightarrow> P x \<Longrightarrow> \<forall>y\<in>set ys. \<not> P y \<Longrightarrow> find_array P xs = Some x"
  by (induction ys arbitrary: xs) auto

lemma find_array_SomeD:
  "find_array P xs = Some x \<Longrightarrow> \<exists>ys zs. xs = ys @ x # zs \<and> P x \<and> (\<forall>y\<in>set ys. \<not> P y)"
proof (induction xs)
  case Nil
  then show ?case by simp
next
  case (Cons a xs)
  show ?case
  proof (cases "P a")
    case True
    with Cons.prems have "a = x" by simp
    with True have "a # xs = [] @ x # xs \<and> P x \<and> (\<forall>y\<in>set []. \<not> P y)" by simp
    then show ?thesis by blast
  next
    case False
    with Cons obtain ys zs where "xs = ys @ x # zs" "P x" "\<forall>y\<in>set ys. \<not> P y" by auto
    with False have "a # xs = (a # ys) @ x # zs \<and> P x \<and> (\<forall>y\<in>set (a # ys). \<not> P y)" by simp
    then show ?thesis by blast
  qed
qed

lemma alias_match_truthy:
  "truthy (find_array (\<lambda>a. cmd = a) al) \<longleftrightarrow> cmd \<noteq> [] \<and> cmd \<in> set al"
  by (induction al) auto

lemma alias_match_empty: "[] \<in> set al \<Longrightarrow> find_array (\<lambda>a. [] = a) al = Some []"
  by (induction al) auto

text \<open>For a token that is not the empty string the lookup is the first registered
  command whose alias list holds the token.\<close>

lemma find_command_nonempty:
  "cmd \<noteq> [] \<Longrightarrow> find_command cs cmd = find_array (\<lambda>c. cmd \<in> set (alias c)) cs"
  by (simp add: find_command_def find_collection_def alias_match_truthy)

lemma find_command_empty: "find_command cs [] = None"
  by (simp add: find_command_def find_collection_def alias_match_truthy find_array_None)

lemma find_command_None:
  "\<forall>c\<in>set cs. cmd \<notin> set (alias c) \<Longrightarrow> find_command cs cmd = None"
  by (simp add: find_command_def find_collection_def alias_match_truthy find_array_None)

text \<open>
  C3, at the input where the code departs from it: \<open>cmd_blank\<close> is registered and its
  alias list holds the empty string, yet the lookup of the empty string reports
  not-found.
\<close>

theorem find_command_misses_empty_alias:
  "[] \<in> set (alias cmd_blank) \<and> find_command [cmd_help, cmd_blank] [] = None"
  by (simp add: cmd_blank_def find_command_empty)

text \<open>
  C10. When a registered command's alias list holds the empty string, the per-command
  alias match on the empty token returns the matched alias itself, the empty string,
  which is falsy; the command is skipped and the lookup reports not-found.
\<close>

theorem empty_alias_is_skipped:
  "c \<in> set cs \<Longrightarrow> [] \<in> set (alias c) \<Longrightarrow>
     find_array (\<lambda>a. [] = a) (alias c) = Some []
     \<and> \<not> truthy (find_array (\<lambda>a. [] = a) (alias c))
     \<and> find_command cs [] = None"
  by (simp add: alias_match_empty find_command_empty)

theorem empty_alias_is_skipped_witness:
  "cmd_blank \<in> set [cmd_ping, cmd_blank] \<and> [] \<in> set (alias cmd_blank)
   \<and> find_array (\<lambda>a. [] = a) (alias cmd_blank) = Some []
   \<and> \<not> truthy (find_array (\<lambda>a. [] = a) (alias cmd_blank))
   \<and> find_command [cmd_ping, cmd_blank] [] = None"
proof -
  have h1: "cmd_blank \<in> set [cmd_ping, cmd_blank]" by simp
  have h2: "[] \<in> set (alias cmd_blank)" by (simp add: cmd_blank_def)
  show ?thesis using h1 h2 empty_alias_is_skipped [OF h1 h2] by simp
qed

section \<open>Regrouping the registry\<close>

lemma map_of_add_to_group:
  "map_of (add_to_group c gs) g =
     (if g = group c
      then Some (case map_of gs g of None \<Rightarrow> [c] | Some cs \<Rightarrow> cs @ [c])
      else map_of gs g)"
  by (induction c gs rule: add_to_group.induct) auto

lemma keys_add_to_group:
  "set (map fst (add_to_group c gs)) = insert (group c) (set (map fst gs))"
  by (induction c gs rule: add_to_group.induct) auto

lemma distinct_add_to_group:
  "distinct (map fst gs) \<Longrightarrow> distinct (map fst (add_to_group c gs))"
proof (induction c gs rule: add_to_group.induct)
  case (1 c)
  then show ?case by simp
next
  case (2 c g cs groups)
  then show ?case using keys_add_to_group [of c groups] by auto
qed

lemma mset_add_to_group:
  "mset (concat (map snd (add_to_group c gs))) = add_mset c (mset (concat (map snd gs)))"
  by (induction c gs rule: add_to_group.induct) auto

lemma distinct_regroup_from:
  "distinct (map fst gs) \<Longrightarrow> distinct (map fst (regroup_from gs cs))"
  by (induction gs cs rule: regroup_from.induct) (auto simp: distinct_add_to_group)

lemma mset_regroup_from:
  "mset (concat (map snd (regroup_from gs cs))) = mset (concat (map snd gs)) + mset cs"
  by (induction gs cs rule: regroup_from.induct) (auto simp: mset_add_to_group)

lemma map_of_regroup_from:
  "map_of (regroup_from gs cs) g =
     (case map_of gs g of
        None \<Rightarrow> (if filter (\<lambda>c. group c = g) cs = [] then None
                 else Some (filter (\<lambda>c. group c = g) cs))
      | Some ys \<Rightarrow> Some (ys @ filter (\<lambda>c. group c = g) cs))"
  by (induction gs cs rule: regroup_from.induct)
     (auto simp: map_of_add_to_group split: option.splits)

lemma map_of_regroup:
  "map_of (regroup cs) g =
     (if filter (\<lambda>c. group c = g) cs = [] then None else Some (filter (\<lambda>c. group c = g) cs))"
  by (simp add: regroup_def map_of_regroup_from)

lemma distinct_regroup: "distinct (map fst (regroup cs))"
  by (simp add: regroup_def distinct_regroup_from)

lemma regroup_member:
  "(g, xs) \<in> set (regroup cs) \<longleftrightarrow> xs \<noteq> [] \<and> xs = filter (\<lambda>c. group c = g) cs"
  using map_of_eq_Some_iff [OF distinct_regroup, of cs g xs] map_of_regroup [of cs g]
  by (auto split: if_splits)

text \<open>
  C6. Regrouping the registry by the \<open>group\<close> field is an exact partition. The group
  names are distinct; the group under a name is not empty and holds exactly the commands
  of that group, in registration order (it is the registry filtered by the name); every
  registered command is in the group of its own name and in no other; and all groups
  together hold the commands of the registry, each as often as the registry does.
\<close>

theorem regroup_partition:
  "distinct (map fst (regroup cs))
   \<and> (\<forall>g xs. (g, xs) \<in> set (regroup cs) \<longrightarrow> xs \<noteq> [] \<and> xs = filter (\<lambda>c. group c = g) cs)
   \<and> (\<forall>c\<in>set cs. \<exists>xs. (group c, xs) \<in> set (regroup cs) \<and> c \<in> set xs)
   \<and> (\<forall>c g xs. (g, xs) \<in> set (regroup cs) \<and> c \<in> set xs \<longrightarrow> g = group c)
   \<and> mset (concat (map snd (regroup cs))) = mset cs"
proof (intro conjI)
  show "distinct (map fst (regroup cs))" by (rule distinct_regroup)
  show "\<forall>g xs. (g, xs) \<in> set (regroup cs) \<longrightarrow> xs \<noteq> [] \<and> xs = filter (\<lambda>c. group c = g) cs"
    by (simp add: regroup_member)
  show "\<forall>c\<in>set cs. \<exists>xs. (group c, xs) \<in> set (regroup cs) \<and> c \<in> set xs"
  proof
    fix c assume c: "c \<in> set cs"
    then have "filter (\<lambda>d. group d = group c) cs \<noteq> []"
      by (auto simp: filter_empty_conv)
    with c have "(group c, filter (\<lambda>d. group d = group c) cs) \<in> set (regroup cs)
        \<and> c \<in> set (filter (\<lambda>d. group d = group c) cs)"
      by (simp add: regroup_member)
    then show "\<exists>xs. (group c, xs) \<in> set (regroup cs) \<and> c \<in> set xs" by blast
  qed
  show "\<forall>c g xs. (g, xs) \<in> set (regroup cs) \<and> c \<in> set xs \<longrightarrow> g = group c"
    by (auto simp: regroup_member)
  show "mset (concat (map snd (regroup cs))) = mset cs"
    by (simp add: regroup_def mset_regroup_from)
qed

theorem regroup_partition_witness:
  "regroup [cmd_help, cmd_ping, cmd_blank]
     = [(''help'', [cmd_help]), (''util'', [cmd_ping, cmd_blank])]
   \<and> distinct (map fst (regroup [cmd_help, cmd_ping, cmd_blank]))
   \<and> mset (concat (map snd (regroup [cmd_help, cmd_ping, cmd_blank])))
       = mset [cmd_help, cmd_ping, cmd_blank]"
  using regroup_partition [of "[cmd_help, cmd_ping, cmd_blank]"]
  by (simp add: regroup_def cmd_help_def cmd_ping_def cmd_blank_def)

section \<open>The help command with an argument\<close>

lemma field_value_not_empty: "field_value d al \<noteq> []"
  by (simp add: field_value_def)

lemma addFields_one:
  "n \<noteq> [] \<Longrightarrow>
     addFields e [(n, field_value d al)]
       = Inr (e\<lparr>embed_fields := embed_fields e @ [(n, field_value d al, False)]\<rparr>)"
  by (simp add: addFields_def normalizeField_def field_value_not_empty)

lemma addFields_nameless:
  "addFields e [([], v)] = Inl (RangeError ''EMBED_FIELD_NAME'')"
  by (simp add: addFields_def normalizeField_def)

text \<open>
  C8, as amended. The help handler is called with one argument token. When the token is
  in no registered command's alias list, the handler sends no message, and a display
  unit it has built holds no entry. For a bot that is logged in, the handler builds one
  display unit before it looks the token up: when the token is in no alias list, that
  unit is all the handler did, and it is dropped; when the token is not the empty
  string, the first registered command whose alias list holds it is \<open>c\<close>, the name of
  \<open>c\<close> is not the empty string, and the description of \<open>c\<close> formats to \<open>d\<close>, the handler
  puts exactly one entry, the one of \<open>c\<close>, into that one display unit and sends it once.
\<close>

theorem help_one_argument:
  "((\<forall>c\<in>set (commands b). tok \<notin> set (alias c)) \<longrightarrow>
      \<not> list_ex is_sent (snd (script resp now b msg [tok]))
      \<and> (\<forall>e. Embed_built e \<in> set (snd (script resp now b msg [tok])) \<longrightarrow> embed_fields e = []))
   \<and> (user b = Some u \<longrightarrow>
       (let e0 = MessageEmbed now b
                   (title_response resp (tag u), description_response resp (prefix b))
        in embed_fields e0 = []
         \<and> ((\<forall>c\<in>set (commands b). tok \<notin> set (alias c)) \<longrightarrow>
              script resp now b msg [tok] = (Resolved (), [Embed_built e0]))
         \<and> (tok \<noteq> [] \<and> find_array (\<lambda>c. tok \<in> set (alias c)) (commands b) = Some c
              \<and> name c \<noteq> [] \<and> handleDescription (description c) = Inr d \<longrightarrow>
              script resp now b msg [tok] =
                (Resolved (),
                 [Embed_built e0,
                  Sent (member_str msg)
                    (e0\<lparr>embed_fields := [(name c, field_value d (alias c), False)]\<rparr>)]
                 @ send_catch b msg
                     (e0\<lparr>embed_fields := [(name c, field_value d (alias c), False)]\<rparr>)))))"
  by (auto simp: Let_def script_def find_command_None find_command_nonempty length_guard_def
        addFields_one MessageEmbed_def split: option.splits)

theorem help_one_argument_witness:
  "user bot_example = Some user_example
   \<and> ''x'' \<notin> set (alias cmd_help) \<and> ''x'' \<notin> set (alias cmd_ping)
   \<and> script responses_example 0 bot_example message_delivered [''x'']
       = (Resolved (), [Embed_built (MessageEmbed 0 bot_example (''Bot#0001'', ''&''))])
   \<and> find_array (\<lambda>c. ''p'' \<in> set (alias c)) (commands bot_example) = Some cmd_ping
   \<and> name cmd_ping \<noteq> []
   \<and> handleDescription (description cmd_ping) = Inr ''Pong''
   \<and> script responses_example 0 bot_example message_delivered [''p'']
       = (Resolved (),
          [Embed_built (MessageEmbed 0 bot_example (''Bot#0001'', ''&'')),
           Sent ''<@1>'' ((MessageEmbed 0 bot_example (''Bot#0001'', ''&''))
             \<lparr>embed_fields := [(''Ping'', field_value ''Pong'' [''p''], False)]\<rparr>)])"
proof -
  have u: "user bot_example = Some user_example" by (simp add: bot_example_def)
  have pong: "handleDescription (description cmd_ping) = Inr ''Pong''"
    by (simp add: cmd_ping_def handleDescription_def)
  have named: "name cmd_ping \<noteq> []" by (simp add: cmd_ping_def)
  have first: "find_array (\<lambda>c. ''p'' \<in> set (alias c)) (commands bot_example) = Some cmd_ping"
    by (simp add: bot_example_def cmd_help_def cmd_ping_def)
  have none: "\<forall>c\<in>set (commands bot_example). ''x'' \<notin> set (alias c)"
    by (simp add: bot_example_def cmd_help_def cmd_ping_def)
  show ?thesis
    using u pong named first none
      help_one_argument [of bot_example "''x''" responses_example 0 message_delivered
        user_example cmd_ping "''Pong''"]
      help_one_argument [of bot_example "''p''" responses_example 0 message_delivered
        user_example cmd_ping "''Pong''"]
    by (simp add: Let_def send_catch_def bot_example_def user_example_def
          responses_example_def message_delivered_def cmd_help_def cmd_ping_def)
qed

text \<open>
  C8 as the specification states it fails: the token \<open>x\<close> is in no alias list of the
  registry, and yet the handler has built a display unit.
\<close>

theorem help_builds_embed_without_match:
  "commands bot_example = [cmd_help, cmd_ping]
   \<and> ''x'' \<notin> set (alias cmd_help) \<and> ''x'' \<notin> set (alias cmd_ping)
   \<and> list_ex is_embed_built
        (snd (script responses_example 0 bot_example message_delivered [''x'']))"
  by (simp add: script_def find_command_def find_collection_def bot_example_def cmd_help_def
        cmd_ping_def Let_def)

text \<open>A matched command whose name is the empty string: \<open>addFields\<close> throws, the handler
  rejects and sends nothing.\<close>

lemma help_nameless_command:
  "script responses_example 0 (bot_example\<lparr>commands := [cmd_nameless]\<rparr>) message_delivered [''n'']
     = (Rejected (RangeError ''EMBED_FIELD_NAME''),
        [Embed_built (MessageEmbed 0 (bot_example\<lparr>commands := [cmd_nameless]\<rparr>)
           (''Bot#0001'', ''&''))])"
  by (simp add: script_def find_command_def find_collection_def Let_def length_guard_def
        handleDescription_def addFields_nameless bot_example_def cmd_nameless_def
        user_example_def responses_example_def)

section \<open>Errors of a handler\<close>

lemma handleError_unheard:
  "emit b \<Longrightarrow> listeners b ''error'' = [] \<Longrightarrow>
     handleError b err = (Inl err, [Emit ''error'' (Error_arg err)])"
  by (simp add: handleError_def emit_event_def)

lemma handleError_delivered:
  "emit b \<Longrightarrow> listeners b ''error'' \<noteq> [] \<Longrightarrow>
   \<forall>a. run_listeners (listeners b ''error'') a = None \<Longrightarrow>
     handleError b err = (Inr True, [Emit ''error'' (Error_arg err)])"
  by (simp add: handleError_def emit_event_def)

lemma handleError_trace: "emit b \<Longrightarrow> snd (handleError b err) = [Emit ''error'' (Error_arg err)]"
  by (simp add: handleError_def emit_event_def split: option.splits)

lemma send_catch_delivered:
  "emit b \<Longrightarrow> listeners b ''error'' \<noteq> [] \<Longrightarrow>
   \<forall>a. run_listeners (listeners b ''error'') a = None \<Longrightarrow>
     send_catch b msg e =
       (case channel_send msg (member_str msg) e of
          Rejected err \<Rightarrow> [Emit ''error'' (Error_arg err)] | _ \<Rightarrow> [])"
  by (simp add: send_catch_def handleError_delivered split: outcome.splits)

lemma send_catch_routes:
  "emit b \<Longrightarrow> listeners b ''error'' \<noteq> [] \<Longrightarrow>
   \<forall>a. run_listeners (listeners b ''error'') a = None \<Longrightarrow>
     \<not> list_ex is_unhandled (send_catch b msg e)
     \<and> \<not> list_ex is_sent (send_catch b msg e)
     \<and> (channel_send msg (member_str msg) e = Rejected err \<longrightarrow>
          Emit ''error'' (Error_arg err) \<in> set (send_catch b msg e))"
  by (simp add: send_catch_delivered split: outcome.splits)

lemma no_sent_member: "\<not> list_ex is_sent xs \<Longrightarrow> Sent c e \<notin> set xs"
  by (auto simp: list_ex_iff)

lemma send_groups_routes:
  assumes em: "emit b" and ls: "listeners b ''error'' \<noteq> []"
    and quiet: "\<forall>a. run_listeners (listeners b ''error'') a = None"
  shows "send_groups resp now b msg groups ks = (r, t, later) \<Longrightarrow>
     \<not> list_ex is_unhandled t \<and> \<not> list_ex is_unhandled later
     \<and> \<not> list_ex is_sent later
     \<and> (\<forall>c e. Sent c e \<in> set t \<longrightarrow> c = member_str msg \<and>
           (\<forall>err. channel_send msg c e = Rejected err \<longrightarrow>
              Emit ''error'' (Error_arg err) \<in> set later))"
proof (induction ks arbitrary: r t later)
  case Nil
  then show ?case by simp
next
  case (Cons k ks)
  show ?case
  proof (cases "user b")
    case None
    with Cons.prems show ?thesis by auto
  next
    case (Some u)
    define e where "e = MessageEmbed now b
      (title_response resp (tag u @ '', Section: '' @ k), description_response resp (prefix b))"
    show ?thesis
    proof (cases "map_of groups k")
      case None
      with Cons.prems Some show ?thesis by (auto simp: e_def)
    next
      case cs: (Some cs)
      show ?thesis
      proof (cases "help_fields cs")
        case (Inl err)
        with Cons.prems Some cs show ?thesis by (auto simp: e_def)
      next
        case fs: (Inr fs)
        show ?thesis
        proof (cases "addFields e fs")
          case (Inl err)
          with Cons.prems Some cs fs show ?thesis by (auto simp: e_def)
        next
          case (Inr e')
          obtain r' t' later' where rec: "send_groups resp now b msg groups ks = (r', t', later')"
            by (cases "send_groups resp now b msg groups ks") auto
          from Cons.prems Some cs fs Inr rec
          have t: "t = Embed_built e # Sent (member_str msg) e' # t'"
            and later: "later = send_catch b msg e' @ later'"
            by (auto simp: e_def Let_def)
          from Cons.IH [OF rec]
          have ih: "\<not> list_ex is_unhandled t'" "\<not> list_ex is_unhandled later'"
            "\<not> list_ex is_sent later'"
            "\<forall>c e. Sent c e \<in> set t' \<longrightarrow> c = member_str msg \<and>
               (\<forall>err. channel_send msg c e = Rejected err \<longrightarrow>
                  Emit ''error'' (Error_arg err) \<in> set later')"
            by auto
          from send_catch_routes [OF em ls quiet, of msg e']
          have sc: "\<not> list_ex is_unhandled (send_catch b msg e')"
            "\<not> list_ex is_sent (send_catch b msg e')"
            "\<forall>err. channel_send msg (member_str msg) e' = Rejected err \<longrightarrow>
               Emit ''error'' (Error_arg err) \<in> set (send_catch b msg e')"
            by auto
          show ?thesis using ih sc unfolding t later by auto
        qed
      qed
    qed
  qed
qed

lemma send_groups_outcome:
  "fst (send_groups resp now b (msg\<lparr>channel_send := f\<rparr>) groups ks)
     = fst (send_groups resp now b msg groups ks)"
  by (induction ks) (auto simp: Let_def split: option.splits sum.splits prod.splits)

lemma script_routes:
  assumes em: "emit b" and ls: "listeners b ''error'' \<noteq> []"
    and quiet: "\<forall>a. run_listeners (listeners b ''error'') a = None"
  shows "\<not> list_ex is_unhandled (snd (script resp now b msg args))
     \<and> (\<forall>c e err. Sent c e \<in> set (snd (script resp now b msg args))
            \<and> channel_send msg c e = Rejected err \<longrightarrow>
          Emit ''error'' (Error_arg err) \<in> set (snd (script resp now b msg args)))"
proof (cases "args = []")
  case True
  obtain r t later where sg:
    "send_groups resp now b msg (regroup (commands b)) (Object_keys (regroup (commands b)))
       = (r, t, later)"
    by (cases "send_groups resp now b msg (regroup (commands b))
                 (Object_keys (regroup (commands b)))") auto
  from send_groups_routes [OF em ls quiet sg]
  have "\<not> list_ex is_unhandled (t @ later)
     \<and> (\<forall>c e err. Sent c e \<in> set (t @ later) \<and> channel_send msg c e = Rejected err \<longrightarrow>
          Emit ''error'' (Error_arg err) \<in> set (t @ later))"
    by (auto simp: list_ex_iff)
  moreover have "snd (script resp now b msg args) = t @ later"
    using True sg by (auto simp: script_def Let_def split: option.splits)
  ultimately show ?thesis by simp
next
  case False
  then show ?thesis
    using send_catch_routes [OF em ls quiet, of msg]
    by (auto simp: script_def Let_def length_guard_def dest: no_sent_member
          split: option.splits sum.splits)
qed

lemma script_no_args:
  "fst (script resp now b msg []) =
     (case fst (send_groups resp now b msg (regroup (commands b))
                  (Object_keys (regroup (commands b)))) of
        None \<Rightarrow> Resolved () | Some err \<Rightarrow> Rejected err)"
  by (simp add: script_def Let_def split: prod.splits option.splits)

lemma script_outcome:
  "fst (script resp now b (msg\<lparr>channel_send := f\<rparr>) args) = fst (script resp now b msg args)"
proof (cases args)
  case Nil
  then show ?thesis by (simp add: script_no_args send_groups_outcome)
next
  case (Cons a as)
  then show ?thesis
    by (auto simp: script_def Let_def length_guard_def split: option.splits sum.splits)
qed

lemma dispatch_routes:
  "emit b \<Longrightarrow> listeners b ''error'' \<noteq> [] \<Longrightarrow>
   \<forall>a. run_listeners (listeners b ''error'') a = None \<Longrightarrow>
     dispatch b (Rejected err, t) = (Resolved (), t @ [Emit ''error'' (Error_arg err)])"
  by (simp add: dispatch_def handleError_delivered)

lemma dispatch_never_rejects:
  "emit b \<Longrightarrow> listeners b ''error'' \<noteq> [] \<Longrightarrow>
   \<forall>a. run_listeners (listeners b ''error'') a = None \<Longrightarrow>
     fst (dispatch b run) \<noteq> Rejected err"
  by (cases run) (auto simp: dispatch_def handleError_delivered split: outcome.splits)

text \<open>
  C9, as amended. \<open>handleError\<close> throws the error when the bot has no emitter; when it has
  one, it hands the error to the emitter's \<open>error\<close> event, and when no listener is
  registered for that event the emitter throws the error, so \<open>handleError\<close> throws it too.
  When the bot has an emitter with a listener for \<open>error\<close> and its listeners return:
  \<open>handleError\<close> returns; every send of the help handler that fails is caught and emitted
  as the \<open>error\<close> event, and none is left as an unhandled rejection; and the dispatch
  layer turns a handler's rejection into the \<open>error\<close> event and never rejects itself.
  Whatever the sends do, the help handler's own outcome is the same.
\<close>

theorem handler_errors_are_routed:
  "(\<not> emit b \<longrightarrow> handleError b err = (Inl err, []))
   \<and> (emit b \<longrightarrow> snd (handleError b err) = [Emit ''error'' (Error_arg err)])
   \<and> (emit b \<and> listeners b ''error'' = [] \<longrightarrow> fst (handleError b err) = Inl err)
   \<and> (emit b \<and> listeners b ''error'' \<noteq> []
        \<and> (\<forall>a. run_listeners (listeners b ''error'') a = None) \<longrightarrow>
        handleError b err = (Inr True, [Emit ''error'' (Error_arg err)])
        \<and> \<not> list_ex is_unhandled (snd (script resp now b msg args))
        \<and> (\<forall>c e err'. Sent c e \<in> set (snd (script resp now b msg args))
               \<and> channel_send msg c e = Rejected err' \<longrightarrow>
             Emit ''error'' (Error_arg err') \<in> set (snd (script resp now b msg args)))
        \<and> dispatch b (Rejected err, t) = (Resolved (), t @ [Emit ''error'' (Error_arg err)])
        \<and> (\<forall>err'. fst (dispatch b run) \<noteq> Rejected err'))
   \<and> fst (script resp now b (msg\<lparr>channel_send := f\<rparr>) args)
       = fst (script resp now b msg args)"
proof -
  have "handleError b err = (Inr True, [Emit ''error'' (Error_arg err)])
        \<and> \<not> list_ex is_unhandled (snd (script resp now b msg args))
        \<and> (\<forall>c e err'. Sent c e \<in> set (snd (script resp now b msg args))
               \<and> channel_send msg c e = Rejected err' \<longrightarrow>
             Emit ''error'' (Error_arg err') \<in> set (snd (script resp now b msg args)))
        \<and> dispatch b (Rejected err, t) = (Resolved (), t @ [Emit ''error'' (Error_arg err)])
        \<and> (\<forall>err'. fst (dispatch b run) \<noteq> Rejected err')"
    if h: "emit b" "listeners b ''error'' \<noteq> []"
      "\<forall>a. run_listeners (listeners b ''error'') a = None"
    using handleError_delivered [OF h] script_routes [OF h, of resp now msg args]
      dispatch_routes [OF h] dispatch_never_rejects [OF h]
    by blast
  then show ?thesis
    by (simp add: handleError_trace handleError_unheard script_outcome)
       (simp add: handleError_def)
qed

theorem handler_errors_are_routed_witness:
  "emit bot_listening \<and> listeners bot_listening ''error'' \<noteq> []
   \<and> handleError bot_listening (Failure ''Missing Permissions'')
       = (Inr True, [Emit ''error'' (Error_arg (Failure ''Missing Permissions''))])
   \<and> \<not> list_ex is_unhandled
         (snd (script responses_example 0 bot_listening message_refused [''help'']))
   \<and> list_ex is_sent (snd (script responses_example 0 bot_listening message_refused [''help'']))
   \<and> Emit ''error'' (Error_arg (Failure ''Missing Permissions''))
       \<in> set (snd (script responses_example 0 bot_listening message_refused [''help'']))
   \<and> fst (script responses_example 0 bot_listening message_refused [''help'']) = Resolved ()
   \<and> dispatch bot_listening (Rejected (TypeError ''t''), [])
       = (Resolved (), [Emit ''error'' (Error_arg (TypeError ''t''))])
   \<and> emit bot_example \<and> listeners bot_example ''error'' = []
   \<and> fst (handleError bot_example (Failure ''Missing Permissions''))
       = Inl (Failure ''Missing Permissions'')
   \<and> \<not> emit (bot_example\<lparr>emit := False\<rparr>)
   \<and> handleError (bot_example\<lparr>emit := False\<rparr>) (Failure ''Missing Permissions'')
       = (Inl (Failure ''Missing Permissions''), [])"
proof -
  have e: "emit bot_listening" by (simp add: bot_listening_def bot_example_def)
  have l: "listeners bot_listening ''error'' \<noteq> []" by (simp add: bot_listening_def)
  have q: "\<forall>a. run_listeners (listeners bot_listening ''error'') a = None"
    by (simp add: bot_listening_def)
  have e0: "emit bot_example" by (simp add: bot_example_def)
  have l0: "listeners bot_example ''error'' = []" by (simp add: bot_example_def)
  have ne: "\<not> emit (bot_example\<lparr>emit := False\<rparr>)" by simp
  have run: "snd (script responses_example 0 bot_listening message_refused [''help''])
      = [Embed_built (MessageEmbed 0 bot_listening (''Bot#0001'', ''&'')),
         Sent ''<@1>'' ((MessageEmbed 0 bot_listening (''Bot#0001'', ''&''))
           \<lparr>embed_fields := [(''Help'', field_value
               (''List of commands'' @ [LF] @ ''Help on one command'' @ [LF]) [''h'', ''help''],
               False)]\<rparr>),
         Emit ''error'' (Error_arg (Failure ''Missing Permissions''))]"
    by (simp add: script_def find_command_def find_collection_def Let_def length_guard_def
          handleDescription_Array replace_commas_def send_catch_def handleError_def
          emit_event_def addFields_one bot_listening_def
          bot_example_def user_example_def responses_example_def message_refused_def
          cmd_help_def MessageEmbed_def)
  have out: "fst (script responses_example 0 bot_listening message_refused [''help''])
      = Resolved ()"
    by (simp add: script_def find_command_def find_collection_def Let_def length_guard_def
          handleDescription_Array addFields_one bot_listening_def bot_example_def
          user_example_def cmd_help_def)
  note routed = handler_errors_are_routed [of _ _ responses_example 0 message_refused
      "[''help'']" "[]" "(Rejected (TypeError ''t''), [])" "\<lambda>c e. Resolved ()"]
  have A: "handleError bot_listening (Failure ''Missing Permissions'')
      = (Inr True, [Emit ''error'' (Error_arg (Failure ''Missing Permissions''))])"
    using routed [of bot_listening "Failure ''Missing Permissions''"] e l q by blast
  have C: "\<not> list_ex is_unhandled
      (snd (script responses_example 0 bot_listening message_refused [''help'']))"
    using routed [of bot_listening "Failure ''Missing Permissions''"] e l q by blast
  have D: "dispatch bot_listening (Rejected (TypeError ''t''), [])
      = (Resolved (), [Emit ''error'' (Error_arg (TypeError ''t''))])"
    using routed [of bot_listening "TypeError ''t''"] e l q by simp
  have U: "fst (handleError bot_example (Failure ''Missing Permissions''))
      = Inl (Failure ''Missing Permissions'')"
    using routed [of bot_example "Failure ''Missing Permissions''"] e0 l0 by blast
  have B: "handleError (bot_example\<lparr>emit := False\<rparr>) (Failure ''Missing Permissions'')
      = (Inl (Failure ''Missing Permissions''), [])"
    using routed [of "bot_example\<lparr>emit := False\<rparr>" "Failure ''Missing Permissions''"] ne
    by blast
  have S: "list_ex is_sent
      (snd (script responses_example 0 bot_listening message_refused [''help'']))"
    by (simp add: run)
  have M: "Emit ''error'' (Error_arg (Failure ''Missing Permissions''))
      \<in> set (snd (script responses_example 0 bot_listening message_refused [''help'']))"
    by (simp add: run)
  show ?thesis using e l e0 l0 ne A B C D U S M out by simp
qed

text \<open>
  C9 as the specification states it fails: the bot as constructed has an emitter and no
  listener for \<open>error\<close>; \<open>handleError\<close> throws all the same, and the failed send of the
  help handler ends as an unhandled rejection.
\<close>

theorem handleError_throws_without_listener:
  "emit bot_example \<and> listeners bot_example ''error'' = []
   \<and> handleError bot_example (Failure ''Missing Permissions'')
       = (Inl (Failure ''Missing Permissions''),
          [Emit ''error'' (Error_arg (Failure ''Missing Permissions''))])
   \<and> channel_send message_refused ''<@1>''
        ((MessageEmbed 0 bot_example (''Bot#0001'', ''&''))
           \<lparr>embed_fields := [(''Help'', field_value
               (''List of commands'' @ [LF] @ ''Help on one command'' @ [LF]) [''h'', ''help''],
               False)]\<rparr>)
       = Rejected (Failure ''Missing Permissions'')
   \<and> snd (script responses_example 0 bot_example message_refused [''help''])
       = [Embed_built (MessageEmbed 0 bot_example (''Bot#0001'', ''&'')),
          Sent ''<@1>'' ((MessageEmbed 0 bot_example (''Bot#0001'', ''&''))
            \<lparr>embed_fields := [(''Help'', field_value
                (''List of commands'' @ [LF] @ ''Help on one command'' @ [LF]) [''h'', ''help''],
                False)]\<rparr>),
          Emit ''error'' (Error_arg (Failure ''Missing Permissions'')),
          Unhandled_rejection (Failure ''Missing Permissions'')]"
  by (simp add: script_def find_command_def find_collection_def Let_def length_guard_def
        handleDescription_Array replace_commas_def send_catch_def handleError_def
        emit_event_def addFields_one bot_example_def user_example_def responses_example_def
        message_refused_def cmd_help_def MessageEmbed_def)

section \<open>The order of the login lifecycle\<close>

lemma login_steps:
  assumes "connect ext b = (r1, b1, t1)"
    and "Modules_init ms b1 = (r2, b2, t2)"
    and "Modules_start ms b2 = (r3, b3, t3)"
  shows "login ext ms token b =
     (case r1 of
        Rejected e \<Rightarrow> (Rejected e, b1, t1)
      | Pending \<Rightarrow> (Pending, b1, t1)
      | Resolved c \<Rightarrow>
          (case r2 of
             Rejected e \<Rightarrow> (Rejected e, b2, t1 @ t2)
           | Pending \<Rightarrow> (Pending, b2, t1 @ t2)
           | Resolved u \<Rightarrow>
               (case r3 of
                  Rejected e \<Rightarrow> (Rejected e, b3, t1 @ t2 @ t3)
                | Pending \<Rightarrow> (Pending, b3, t1 @ t2 @ t3)
                | Resolved u \<Rightarrow>
                    (super_login ext token, b3, t1 @ t2 @ t3 @ [Transport_login token]))))"
  using assms
  by (simp add: login_def await_def catch_def throw_def transport_login_def
        split: outcome.splits)

lemma connect_unconfigured: "\<not> configured (dbname b) \<Longrightarrow> connect ext b = (Resolved None, b, [])"
  by (cases "dbname b") (simp_all add: connect_def)

lemma emit_event_trace: "emit_event b ev a = (r, t) \<Longrightarrow> t = [Emit ev a]"
  by (auto simp: emit_event_def split: if_splits option.splits emit_arg.splits)

lemma connect_events:
  "connect ext b = (r, b1, t) \<Longrightarrow> ev \<in> set t \<Longrightarrow>
     \<not> is_init_called ev \<and> \<not> is_init_failed ev \<and> \<not> is_start_called ev
     \<and> init_done_name ev = None"
  by (auto simp: connect_def Let_def dest!: emit_event_trace
        split: option.splits if_splits outcome.splits prod.splits sum.splits)

lemma connect_attempt_configured:
  "connect ext b = (r, b1, t) \<Longrightarrow> list_ex is_connect_attempt t \<Longrightarrow> configured (dbname b)"
  by (auto simp: connect_def Let_def split: option.splits if_splits outcome.splits)

lemma Modules_init_events:
  "Modules_init ms b = (r, b1, t) \<Longrightarrow>
     (\<forall>ev\<in>set t. \<not> is_start_called ev \<and> \<not> is_connect_attempt ev)
     \<and> (r = Resolved () \<longrightarrow> inits_done t = map name_module ms \<and> \<not> list_ex is_init_failed t)"
proof (induction ms arbitrary: b r b1 t)
  case Nil
  then show ?case by (simp add: inits_done_def)
next
  case (Cons m ms)
  obtain r0 b0 where h: "init m b = (r0, b0)" by (cases "init m b") auto
  show ?case
  proof (cases r0)
    case (Resolved u)
    obtain r' b' t' where rec: "Modules_init ms b0 = (r', b', t')"
      by (cases "Modules_init ms b0") auto
    from Cons.prems h Resolved rec
    have t: "t = Init_called (name_module m) # Init_done (name_module m) # t'" and r: "r = r'"
      by auto
    from Cons.IH [OF rec] show ?thesis unfolding t r
      by (auto simp: inits_done_def)
  next
    case (Rejected e)
    with Cons.prems h show ?thesis by auto
  next
    case Pending
    with Cons.prems h show ?thesis by auto
  qed
qed

lemma Modules_start_events:
  "Modules_start ms b = (r, b1, t) \<Longrightarrow> ev \<in> set t \<Longrightarrow>
     \<not> is_init_called ev \<and> \<not> is_init_failed ev \<and> init_done_name ev = None
     \<and> \<not> is_connect_attempt ev"
proof (induction ms arbitrary: b r b1 t)
  case Nil
  then show ?case by simp
next
  case (Cons m ms)
  obtain r0 b0 where h: "start m b = (r0, b0)" by (cases "start m b") auto
  show ?case
  proof (cases r0)
    case (Resolved u)
    obtain r' b' t' where rec: "Modules_start ms b0 = (r', b', t')"
      by (cases "Modules_start ms b0") auto
    from Cons.prems h Resolved rec
    have t: "t = Start_called (name_module m) # Start_done (name_module m) # t'"
      by auto
    from Cons.IH [OF rec] Cons.prems(2) show ?thesis unfolding t by auto
  next
    case (Rejected e)
    with Cons.prems h show ?thesis by auto
  next
    case Pending
    with Cons.prems h show ?thesis by auto
  qed
qed

text \<open>
  C1. \<open>login\<close> runs its steps in one fixed order, each to completion before the next:
  the database connect, then the initialization of the modules from the bot the connect
  left, then their start from the bot the initialization left, then the transport's
  login. A step that rejects or never completes ends \<open>login\<close> with that outcome and the
  later steps do not run; when all three complete, \<open>login\<close> returns what the transport
  returns. The connect step calls the database driver only if a name is configured.
\<close>

theorem login_order:
  assumes "connect ext b = (r1, b1, t1)"
    and "Modules_init ms b1 = (r2, b2, t2)"
    and "Modules_start ms b2 = (r3, b3, t3)"
  shows "login ext ms token b =
     (case r1 of
        Rejected e \<Rightarrow> (Rejected e, b1, t1)
      | Pending \<Rightarrow> (Pending, b1, t1)
      | Resolved c \<Rightarrow>
          (case r2 of
             Rejected e \<Rightarrow> (Rejected e, b2, t1 @ t2)
           | Pending \<Rightarrow> (Pending, b2, t1 @ t2)
           | Resolved u \<Rightarrow>
               (case r3 of
                  Rejected e \<Rightarrow> (Rejected e, b3, t1 @ t2 @ t3)
                | Pending \<Rightarrow> (Pending, b3, t1 @ t2 @ t3)
                | Resolved u \<Rightarrow>
                    (super_login ext token, b3, t1 @ t2 @ t3 @ [Transport_login token]))))
     \<and> (list_ex is_connect_attempt t1 \<longrightarrow> configured (dbname b))"
proof -
  have "list_ex is_connect_attempt t1 \<longrightarrow> configured (dbname b)"
    using assms(1) by (auto dest: connect_attempt_configured)
  then show ?thesis
    using assms
    by (simp add: login_def await_def catch_def throw_def transport_login_def
          split: outcome.splits)
qed

theorem login_order_witness:
  "fst (login externals_example [module_core, module_extra] ''tok''
          (bot_example\<lparr>dbname := Some ''botdb''\<rparr>)) = Resolved ''tok''
   \<and> snd (snd (login externals_example [module_core, module_extra] ''tok''
          (bot_example\<lparr>dbname := Some ''botdb''\<rparr>)))
       = [Mongoose_connect ''mongodb://localhost:27017/botdb'',
          Emit ''debug'' (Message_arg ''[DiscordBot] Mongodb connected''),
          Init_called ''core'', Init_done ''core'', Init_called ''extra'', Init_done ''extra'',
          Start_called ''core'', Start_done ''core'', Start_called ''extra'', Start_done ''extra'',
          Transport_login ''tok'']"
proof -
  define b0 where "b0 = bot_example\<lparr>dbname := Some ''botdb''\<rparr>"
  define b1 where "b1 = b0\<lparr>db := Some \<lparr>readyState = 1, opens = True\<rparr>\<rparr>"
  define b2 where "b2 = b1\<lparr>commands := commands b1 @ [cmd_blank]\<rparr>"
  have c: "connect externals_example b0
      = (Resolved (Some \<lparr>readyState = 1, opens = True\<rparr>), b1,
         [Mongoose_connect ''mongodb://localhost:27017/botdb'',
          Emit ''debug'' (Message_arg ''[DiscordBot] Mongodb connected'')])"
    by (simp add: connect_def emit_event_def externals_example_def b0_def b1_def
          bot_example_def)
  have i: "Modules_init [module_core, module_extra] b1
      = (Resolved (), b2,
         [Init_called ''core'', Init_done ''core'', Init_called ''extra'', Init_done ''extra''])"
    by (simp add: module_core_def module_extra_def b2_def)
  have s: "Modules_start [module_core, module_extra] b2
      = (Resolved (), b2,
         [Start_called ''core'', Start_done ''core'', Start_called ''extra'', Start_done ''extra''])"
    by (simp add: module_core_def module_extra_def)
  show ?thesis
    using login_order [OF c i s, of "''tok''"]
    by (simp add: b0_def externals_example_def)
qed

lemma inits_done_append: "inits_done (xs @ ys) = inits_done xs @ inits_done ys"
  by (simp add: inits_done_def map_filter_def)

lemma inits_done_none: "\<forall>ev\<in>set xs. init_done_name ev = None \<Longrightarrow> inits_done xs = []"
  by (induction xs) (auto simp: inits_done_def)

lemma split_after_prefix:
  "p @ rest = ta @ x # tb \<Longrightarrow> x \<notin> set p \<Longrightarrow> \<exists>ta'. ta = p @ ta' \<and> rest = ta' @ x # tb"
  by (auto simp: append_eq_append_conv2 append_eq_Cons_conv)

text \<open>
  C2. In every run of \<open>login\<close>: when some module's \<open>init\<close> hook has rejected, no module's
  \<open>start\<close> hook is invoked; and whenever a \<open>start\<close> hook is invoked, the \<open>init\<close> hooks of
  all registered modules have completed before, in registration order.
\<close>

theorem no_start_before_all_inits:
  assumes "login ext ms token b = (r, b', t)"
  shows "(list_ex is_init_failed t \<longrightarrow> \<not> list_ex is_start_called t)
       \<and> (\<forall>ta n tb. t = ta @ Start_called n # tb \<longrightarrow> inits_done ta = map name_module ms)"
proof -
  obtain r1 b1 t1 where c: "connect ext b = (r1, b1, t1)"
    by (cases "connect ext b") auto
  obtain r2 b2 t2 where i: "Modules_init ms b1 = (r2, b2, t2)"
    by (cases "Modules_init ms b1") auto
  obtain r3 b3 t3 where s: "Modules_start ms b2 = (r3, b3, t3)"
    by (cases "Modules_start ms b2") auto
  note steps = login_steps [OF c i s, of token]
  have A: "\<forall>ev\<in>set t1. \<not> is_start_called ev \<and> \<not> is_init_failed ev \<and> init_done_name ev = None"
    using connect_events [OF c] by blast
  have B: "\<forall>ev\<in>set t2. \<not> is_start_called ev"
    using Modules_init_events [OF i] by blast
  have C: "\<forall>ev\<in>set t3. \<not> is_init_failed ev \<and> init_done_name ev = None"
    using Modules_start_events [OF s] by blast
  show ?thesis
  proof (cases "\<exists>c. r1 = Resolved c \<and> r2 = Resolved ()")
    case False
    then have "t = t1 \<or> t = t1 @ t2"
      using assms steps by (cases r1; cases r2) auto
    then have "\<forall>ev\<in>set t. \<not> is_start_called ev"
      using A B by auto
    then have "\<not> list_ex is_start_called t" and "\<And>n. Start_called n \<notin> set t"
      by (auto simp: list_ex_iff)
    then show ?thesis by auto
  next
    case True
    then obtain c where r1: "r1 = Resolved c" and r2: "r2 = Resolved ()" by blast
    define rest where "rest = (case r3 of Resolved u \<Rightarrow> t3 @ [Transport_login token] | _ \<Rightarrow> t3)"
    have t: "t = (t1 @ t2) @ rest"
      using assms steps r1 r2 by (cases r3) (auto simp: rest_def)
    have R: "\<forall>ev\<in>set rest. \<not> is_init_failed ev \<and> init_done_name ev = None"
      using C by (cases r3) (auto simp: rest_def)
    have I: "inits_done t2 = map name_module ms" "\<not> list_ex is_init_failed t2"
      using Modules_init_events [OF i] r2 by auto
    have "\<not> list_ex is_init_failed t"
      using A I(2) R unfolding t by (auto simp: list_ex_iff)
    moreover have "inits_done ta = map name_module ms" if "t = ta @ Start_called n # tb" for ta n tb
    proof -
      have "Start_called n \<notin> set (t1 @ t2)" using A B by auto
      with that t obtain ta' where ta: "ta = (t1 @ t2) @ ta'" and "rest = ta' @ Start_called n # tb"
        using split_after_prefix [of "t1 @ t2" rest ta "Start_called n" tb] by auto
      then have "\<forall>ev\<in>set ta'. init_done_name ev = None" using R by auto
      then have "inits_done ta' = []" by (rule inits_done_none)
      moreover have "inits_done t1 = []" using A by (intro inits_done_none) auto
      ultimately show ?thesis using I(1) by (simp add: ta inits_done_append)
    qed
    ultimately show ?thesis by blast
  qed
qed

theorem no_start_before_all_inits_witness:
  "list_ex is_init_failed
     (snd (snd (login externals_example [module_core, module_broken, module_extra] ''tok''
        bot_example)))
   \<and> \<not> list_ex is_start_called
     (snd (snd (login externals_example [module_core, module_broken, module_extra] ''tok''
        bot_example)))
   \<and> snd (snd (login externals_example [module_core, module_extra] ''tok'' bot_example))
       = [Init_called ''core'', Init_done ''core'', Init_called ''extra'', Init_done ''extra'']
         @ Start_called ''core''
         # [Start_done ''core'', Start_called ''extra'', Start_done ''extra'',
            Transport_login ''tok'']
   \<and> inits_done [Init_called ''core'', Init_done ''core'', Init_called ''extra'',
        Init_done ''extra'']
       = map name_module [module_core, module_extra]"
proof -
  define b1 where "b1 = bot_example\<lparr>commands := commands bot_example @ [cmd_blank]\<rparr>"
  have failing: "login externals_example [module_core, module_broken, module_extra] ''tok''
      bot_example
      = (Rejected (Failure ''init failed''), b1,
         [Init_called ''core'', Init_done ''core'', Init_called ''broken'',
          Init_failed ''broken'' (Failure ''init failed'')])"
    by (simp add: login_def await_def catch_def throw_def connect_def bot_example_def
          module_core_def module_broken_def b1_def)
  have passing: "login externals_example [module_core, module_extra] ''tok'' bot_example
      = (Resolved ''tok'', b1,
         [Init_called ''core'', Init_done ''core'', Init_called ''extra'', Init_done ''extra'']
         @ Start_called ''core''
         # [Start_done ''core'', Start_called ''extra'', Start_done ''extra'',
            Transport_login ''tok''])"
    by (simp add: login_def await_def catch_def throw_def connect_def bot_example_def
          module_core_def module_extra_def b1_def transport_login_def externals_example_def)
  have F: "list_ex is_init_failed
     (snd (snd (login externals_example [module_core, module_broken, module_extra] ''tok''
        bot_example)))"
    by (simp add: failing)
  from no_start_before_all_inits [OF failing] F
  have N: "\<not> list_ex is_start_called
     (snd (snd (login externals_example [module_core, module_broken, module_extra] ''tok''
        bot_example)))"
    by (simp add: failing)
  from no_start_before_all_inits [OF passing]
  have D: "inits_done [Init_called ''core'', Init_done ''core'', Init_called ''extra'',
        Init_done ''extra'']
       = map name_module [module_core, module_extra]"
    by blast
  show ?thesis using F N D by (simp add: passing)
qed

text \<open>
  C4. When the bot has no database name (it is \<open>null\<close>, or the empty string), \<open>connect\<close>
  returns at once without calling the database driver, \<open>login\<close> goes on from the same
  bot with the initialization of the modules, and no connection attempt is part of the
  run.
\<close>

theorem login_without_database:
  "\<not> configured (dbname b) \<Longrightarrow>
     connect ext b = (Resolved None, b, [])
     \<and> login ext ms token b =
         await (Modules_init ms) (\<lambda>_. await (Modules_start ms) (\<lambda>_. transport_login ext token)) b
     \<and> \<not> list_ex is_connect_attempt (snd (snd (login ext ms token b)))"
proof -
  assume u: "\<not> configured (dbname b)"
  have c: "connect ext b = (Resolved None, b, [])" using u by (rule connect_unconfigured)
  obtain r2 b2 t2 where i: "Modules_init ms b = (r2, b2, t2)"
    by (cases "Modules_init ms b") auto
  obtain r3 b3 t3 where s: "Modules_start ms b2 = (r3, b3, t3)"
    by (cases "Modules_start ms b2") auto
  have B: "\<forall>ev\<in>set t2. \<not> is_connect_attempt ev"
    using Modules_init_events [OF i] by blast
  have C: "\<forall>ev\<in>set t3. \<not> is_connect_attempt ev"
    using Modules_start_events [OF s] by blast
  have "login ext ms token b =
         await (Modules_init ms) (\<lambda>_. await (Modules_start ms) (\<lambda>_. transport_login ext token)) b"
    using c by (simp add: login_def await_def catch_def)
  moreover have "\<not> list_ex is_connect_attempt (snd (snd (login ext ms token b)))"
    using login_steps [OF c i s, of token] B C
    by (cases r2; cases r3) (auto simp: list_ex_iff)
  ultimately show ?thesis using c by simp
qed

theorem login_without_database_witness:
  "\<not> configured (dbname bot_example)
   \<and> connect externals_example bot_example = (Resolved None, bot_example, [])
   \<and> \<not> list_ex is_connect_attempt
        (snd (snd (login externals_example [module_extra] ''tok'' bot_example)))
   \<and> \<not> configured (dbname (bot_example\<lparr>dbname := Some []\<rparr>))
   \<and> \<not> list_ex is_connect_attempt
        (snd (snd (login externals_example [module_extra] ''tok''
           (bot_example\<lparr>dbname := Some []\<rparr>))))"
proof -
  have u: "\<not> configured (dbname bot_example)" by (simp add: bot_example_def)
  have v: "\<not> configured (dbname (bot_example\<lparr>dbname := Some []\<rparr>))" by simp
  show ?thesis
    using u v login_without_database [OF u, of externals_example "[module_extra]" "''tok''"]
      login_without_database [OF v, of externals_example "[module_extra]" "''tok''"]
    by blast
qed

text \<open>
  C5. When the bot has a database name and the driver's connection attempt rejects with
  an error, \<open>login\<close> rejects with that same error, the bot is as it was, the one
  connection attempt is all that happened, and no module's \<open>init\<close> hook was invoked.
\<close>

theorem login_database_failure:
  "dbname b = Some n \<Longrightarrow> n \<noteq> [] \<Longrightarrow>
   mongoose_connect ext (''mongodb://localhost:27017/'' @ n) = Rejected e \<Longrightarrow>
     login ext ms token b = (Rejected e, b, [Mongoose_connect (''mongodb://localhost:27017/'' @ n)])
     \<and> \<not> list_ex is_init_called (snd (snd (login ext ms token b)))"
  by (simp add: login_def await_def catch_def throw_def connect_def)

theorem login_database_failure_witness:
  "dbname (bot_example\<lparr>dbname := Some ''botdb''\<rparr>) = Some ''botdb''
   \<and> mongoose_connect externals_down ''mongodb://localhost:27017/botdb''
       = Rejected (Failure ''ECONNREFUSED'')
   \<and> login externals_down [module_core, module_extra] ''tok''
        (bot_example\<lparr>dbname := Some ''botdb''\<rparr>)
       = (Rejected (Failure ''ECONNREFUSED''), bot_example\<lparr>dbname := Some ''botdb''\<rparr>,
          [Mongoose_connect ''mongodb://localhost:27017/botdb''])"
proof -
  have n: "dbname (bot_example\<lparr>dbname := Some ''botdb''\<rparr>) = Some ''botdb''" by simp
  have ne: "''botdb'' \<noteq> []" by simp
  have r: "mongoose_connect externals_down (''mongodb://localhost:27017/'' @ ''botdb'')
      = Rejected (Failure ''ECONNREFUSED'')"
    by (simp add: externals_down_def)
  show ?thesis
    using n r login_database_failure [OF n ne r, of "[module_core, module_extra]" "''tok''"]
    by simp
qed

end
